theory Spec2Isabelle
  imports Main
begin

section \<open>JavaScript values, strings and numbers used by blockchain.js\<close>

text \<open>
  The Blockchain class of \<^verbatim>\<open>src/blockchain.js\<close> keeps its ledger in two fields,
  \<^verbatim>\<open>this.chain\<close> (an array of blocks) and \<^verbatim>\<open>this.height\<close>. Every method returns a
  Promise. The embedding below follows the file method by method. A promise is
  represented by the state it is in once every continuation that the call queued has run.
\<close>

datatype jsval = Undefined | Null | Str string

datatype jserror = TypeError | ReferenceError

text \<open>\<^verbatim>\<open>reject()\<close> without an argument rejects with \<^verbatim>\<open>undefined\<close>: \<open>NoReason\<close>.\<close>

datatype reason = NoReason | Thrown jserror

datatype 'a promise = Pending | Resolved 'a | Rejected reason

text \<open>Only the first call of \<^verbatim>\<open>resolve\<close> or \<^verbatim>\<open>reject\<close> settles a promise.\<close>

definition resolve :: "'a promise \<Rightarrow> 'a \<Rightarrow> 'a promise" where
  "resolve p v = (case p of Pending \<Rightarrow> Resolved v | _ \<Rightarrow> p)"

definition reject :: "'a promise \<Rightarrow> reason \<Rightarrow> 'a promise" where
  "reject p r = (case p of Pending \<Rightarrow> Rejected r | _ \<Rightarrow> p)"

text \<open>
  \<^verbatim>\<open>p.hash\<close> for a Promise object \<open>p\<close> (line 80 reads it from the promise returned by
  \<^verbatim>\<open>getBlockByHeight\<close>): a Promise has no such property, so the read gives
  \<^verbatim>\<open>undefined\<close>, whatever state the promise is in and whatever it resolves with.
\<close>

definition promise_hash :: "'a promise \<Rightarrow> jsval" where
  "promise_hash p = Undefined"

text \<open>\<^verbatim>\<open>s.address\<close> for a primitive string \<open>s\<close> (line 194): \<^verbatim>\<open>undefined\<close> as well.\<close>

definition string_address :: "string \<Rightarrow> jsval" where
  "string_address s = Undefined"

text \<open>\<^verbatim>\<open>ToString\<close> on the values above, as string concatenation with \<^verbatim>\<open>+\<close> applies it.\<close>

fun ToString :: "jsval \<Rightarrow> string" where
  "ToString Undefined = ''undefined''"
| "ToString Null = ''null''"
| "ToString (Str s) = s"

text \<open>The loose equality \<^verbatim>\<open>==\<close> on these values.\<close>

fun loose_eq :: "jsval \<Rightarrow> jsval \<Rightarrow> bool" where
  "loose_eq (Str a) (Str b) = (a = b)"
| "loose_eq (Str a) _ = False"
| "loose_eq _ (Str b) = False"
| "loose_eq _ _ = True"

text \<open>
  Decimal rendering of a non-negative integer (\<^verbatim>\<open>Number.prototype.toString\<close>; the
  exponent notation of numbers from \<open>10\<^sup>2\<^sup>1\<close> on is outside what \<^verbatim>\<open>Date.getTime\<close>
  returns).
\<close>

definition digit_char :: "nat \<Rightarrow> char" where
  "digit_char d = ''0123456789'' ! d"

fun toString_nat :: "nat \<Rightarrow> string" where
  "toString_nat n =
     (if n < 10 then [digit_char n] else toString_nat (n div 10) @ [digit_char (n mod 10)])"

declare toString_nat.simps [simp del]

definition toString_int :: "int \<Rightarrow> string" where
  "toString_int i = (if i < 0 then CHR ''-'' # toString_nat (nat (- i)) else toString_nat (nat i))"

text \<open>\<^verbatim>\<open>s.slice(0, -k)\<close>: the string without its last \<open>k\<close> characters (empty when shorter).\<close>

definition slice0 :: "string \<Rightarrow> nat \<Rightarrow> string" where
  "slice0 s k = take (length s - k) s"

text \<open>
  \<^verbatim>\<open>new Date().getTime().toString().slice(0, -3)\<close> at a clock reading of \<open>ms\<close>
  milliseconds since the epoch (lines 74, 98 and 126).
\<close>

definition seconds_string :: "nat \<Rightarrow> string" where
  "seconds_string ms = slice0 (toString_nat ms) 3"

text \<open>\<^verbatim>\<open>s.split(':')\<close> and the indexing of its result; a missing index is \<^verbatim>\<open>undefined\<close>.\<close>

fun split :: "char \<Rightarrow> string \<Rightarrow> string list" where
  "split sep [] = [[]]"
| "split sep (c # cs) =
     (if c = sep then [] # split sep cs
      else (case split sep cs of [] \<Rightarrow> [[c]] | w # ws \<Rightarrow> (c # w) # ws))"

definition index :: "string list \<Rightarrow> nat \<Rightarrow> jsval" where
  "index xs i = (if i < length xs then Str (xs ! i) else Undefined)"

text \<open>
  \<^verbatim>\<open>parseInt\<close> with no radix: leading white space is skipped, a sign is read, a
  \<^verbatim>\<open>0x\<close> prefix selects radix 16, then the longest prefix of digits is read; without a
  digit the result is \<^verbatim>\<open>NaN\<close>, here \<open>None\<close>. Numbers are integers here: the
  rounding of doubles beyond \<open>2\<^sup>5\<^sup>3\<close> is not represented. A character of a
  \<open>string\<close> is a code unit below 256, so the white space of JavaScript in that range is
  the tab, the four line and page breaks, the space and the no-break space (160); its
  white space from 256 on (such as U+2028 or U+FEFF) cannot occur in a \<open>string\<close>.
\<close>

definition is_white_space :: "char \<Rightarrow> bool" where
  "is_white_space c = (of_char c \<in> {9, 10, 11, 12, 13, 32, 160 :: nat})"

definition digit_value :: "char \<Rightarrow> nat" where
  "digit_value c =
     (let k = of_char c :: nat in
      if 48 \<le> k \<and> k \<le> 57 then k - 48
      else if 97 \<le> k \<and> k \<le> 102 then k - 87
      else if 65 \<le> k \<and> k \<le> 70 then k - 55
      else 99)"

definition read_digits :: "nat \<Rightarrow> string \<Rightarrow> nat option" where
  "read_digits radix s =
     (case takeWhile (\<lambda>c. digit_value c < radix) s of
        [] \<Rightarrow> None
      | ds \<Rightarrow> Some (foldl (\<lambda>acc c. acc * radix + digit_value c) 0 ds))"

definition read_unsigned :: "string \<Rightarrow> nat option" where
  "read_unsigned s =
     (if take 2 s = ''0x'' \<or> take 2 s = ''0X'' then read_digits 16 (drop 2 s)
      else read_digits 10 s)"

definition parseInt :: "jsval \<Rightarrow> int option" where
  "parseInt v =
     (let s = dropWhile is_white_space (ToString v) in
      case s of
        [] \<Rightarrow> None
      | c # cs \<Rightarrow>
          if c = CHR ''-'' then map_option (\<lambda>n. - int n) (read_unsigned cs)
          else if c = CHR ''+'' then map_option int (read_unsigned cs)
          else map_option int (read_unsigned s))"

text \<open>Subtraction and \<^verbatim>\<open>></\<close> on numbers; any comparison with \<^verbatim>\<open>NaN\<close> is false.\<close>

definition js_minus :: "int option \<Rightarrow> int option \<Rightarrow> int option" where
  "js_minus a b = (case (a, b) of (Some x, Some y) \<Rightarrow> Some (x - y) | _ \<Rightarrow> None)"

definition js_greater :: "int option \<Rightarrow> int \<Rightarrow> bool" where
  "js_greater a k = (case a of Some x \<Rightarrow> x > k | None \<Rightarrow> False)"

section \<open>Blocks and the collaborators of the ledger\<close>

text \<open>
  The fields of a block as blockchain.js reads and writes them. \<^verbatim>\<open>block.height\<close> is
  \<open>height_b\<close> here, since \<open>height\<close> names the field of the ledger.
\<close>

record block =
  hash :: jsval
  height_b :: int
  body :: string
  time :: string
  previousBlockHash :: jsval

text \<open>An object literal \<^verbatim>\<open>{data: s}\<close>, the only payload that blockchain.js builds.\<close>

datatype payload = Data string

text \<open>
  What blockchain.js requires from other modules:
  \<^item> \<open>SHA256\<close>: \<^verbatim>\<open>SHA256(x).toString()\<close> of crypto-js;
  \<^item> \<open>verify\<close>: \<^verbatim>\<open>bitcoinMessage.verify(message, address, signature)\<close>, taken to
    return a boolean on every input, as the contract of the signature verifier says;
  \<^item> \<open>Block\<close>: the constructor \<^verbatim>\<open>new BlockClass.Block(payload)\<close> of block.js. That
    file is not among the sources, so the constructor is a parameter: any function from
    payloads to blocks. blockchain.js overwrites every field of the new block but
    \<open>body\<close> before it pushes the block;
  \<^item> \<open>getData\<close>: the method \<^verbatim>\<open>block.getData()\<close> of block.js, a parameter as well.
\<close>

record ext =
  SHA256 :: "string \<Rightarrow> string"
  verify :: "string \<Rightarrow> string \<Rightarrow> string \<Rightarrow> bool"
  Block :: "payload \<Rightarrow> block"
  getData :: "block \<Rightarrow> string"

section \<open>The ledger\<close>

record blockchain =
  chain :: "block list"
  height :: int

text \<open>\<^verbatim>\<open>getChainHeight\<close> (lines 51-55): the executor resolves at once with the field.\<close>

definition getChainHeight :: "blockchain \<Rightarrow> int promise" where
  "getChainHeight self = resolve Pending (height self)"

text \<open>
  \<^verbatim>\<open>getBlockByHeight\<close> (lines 166-178): the first block of the array whose
  \<^verbatim>\<open>height\<close> field is strictly equal to the argument; \<open>None\<close> is \<^verbatim>\<open>null\<close>.
\<close>

definition getBlockByHeight :: "blockchain \<Rightarrow> int \<Rightarrow> block option promise" where
  "getBlockByHeight self h =
     (case filter (\<lambda>p. height_b p = h) (chain self) of
        [] \<Rightarrow> resolve Pending None
      | block # _ \<Rightarrow> resolve Pending (Some block))"

text \<open>
  \<^verbatim>\<open>_addBlock\<close> (lines 71-86). The executor is an async function: it runs up to its
  first \<^verbatim>\<open>await\<close> inside the call, and its two continuations run later. The three
  segments are kept apart; \<open>addBlock_susp\<close> is a suspended executor.
  \<^item> \<open>Await76\<close>: line 74 has set \<^verbatim>\<open>block.time\<close>, and line 76 awaits the promise of
    \<^verbatim>\<open>getChainHeight\<close>, which was resolved within the call.
  \<^item> \<open>Await80\<close>: lines 77-78 have set \<^verbatim>\<open>block.height\<close> and incremented
    \<^verbatim>\<open>this.height\<close>; line 80 awaits the value of
    \<^verbatim>\<open>self.getBlockByHeight(currentHeight).hash\<close>, a property of the promise.
\<close>

datatype addBlock_susp = Await76 block "int promise" | Await80 block jsval

text \<open>
  The right-hand side of line 82:
  \<^verbatim>\<open>SHA256(block.height + block.body + block.time + block.previousBlockHash).toString()\<close>.
  The sum of a number and a string is the concatenation of their strings, and so is
  every later sum.
\<close>

definition block_digest :: "ext \<Rightarrow> block \<Rightarrow> jsval" where
  "block_digest e block =
     Str (SHA256 e (toString_int (height_b block) @ body block @ time block
                      @ ToString (previousBlockHash block)))"

definition addBlock_call :: "nat \<Rightarrow> block \<Rightarrow> blockchain \<Rightarrow> addBlock_susp" where
  "addBlock_call now block self =
     Await76 (block\<lparr>time := seconds_string now\<rparr>) (getChainHeight self)"

text \<open>
  One continuation of the executor. An await of a promise that rejects or never settles
  ends the executor without a call of \<^verbatim>\<open>resolve\<close>: the promise of \<^verbatim>\<open>_addBlock\<close>
  stays pending.
\<close>

fun addBlock_resume ::
  "ext \<Rightarrow> addBlock_susp \<Rightarrow> blockchain \<Rightarrow> blockchain \<times> (addBlock_susp + block promise)" where
  "addBlock_resume e (Await76 block (Resolved currentHeight)) self =
     (let block1 = block\<lparr>height_b := currentHeight + 1\<rparr>;
          self1 = self\<lparr>height := height self + 1\<rparr>;
          awaited = promise_hash (getBlockByHeight self1 currentHeight)
      in (self1, Inl (Await80 block1 awaited)))"
| "addBlock_resume e (Await76 block _) self = (self, Inr Pending)"
| "addBlock_resume e (Await80 block awaited) self =
     (let block1 = block\<lparr>previousBlockHash := awaited\<rparr>;
          block2 = block1\<lparr>hash := block_digest e block1\<rparr>
      in (self\<lparr>chain := chain self @ [block2]\<rparr>, Inr (resolve Pending block2)))"

text \<open>Running a suspended executor to its end, with nothing else in between.\<close>

fun addBlock_finish :: "ext \<Rightarrow> addBlock_susp \<Rightarrow> blockchain \<Rightarrow> blockchain \<times> block promise" where
  "addBlock_finish e (Await76 block p) self =
     (case addBlock_resume e (Await76 block p) self of
        (self1, Inl k) \<Rightarrow>
          (case addBlock_resume e k self1 of
             (self2, Inl k2) \<Rightarrow> (self2, Pending)
           | (self2, Inr r) \<Rightarrow> (self2, r))
      | (self1, Inr r) \<Rightarrow> (self1, r))"
| "addBlock_finish e (Await80 block v) self =
     (case addBlock_resume e (Await80 block v) self of
        (self1, Inl k) \<Rightarrow> (self1, Pending)
      | (self1, Inr r) \<Rightarrow> (self1, r))"

definition addBlock :: "ext \<Rightarrow> nat \<Rightarrow> block \<Rightarrow> blockchain \<Rightarrow> blockchain \<times> block promise" where
  "addBlock e now block self = addBlock_finish e (addBlock_call now block self) self"

text \<open>
  The constructor (lines 25-31) and \<^verbatim>\<open>initializeChain\<close> (lines 38-46). The
  constructor calls the async \<^verbatim>\<open>initializeChain\<close> and does not wait for it:
  \<open>Blockchain_new\<close> is the ledger when \<^verbatim>\<open>new Blockchain()\<close> returns, together with
  the executor of \<^verbatim>\<open>_addBlock\<close> that is suspended at that moment. \<open>Blockchain_ready\<close>
  is the ledger once that executor has run to its end.
\<close>

definition initializeChain :: "ext \<Rightarrow> nat \<Rightarrow> blockchain \<Rightarrow> addBlock_susp option" where
  "initializeChain e now self =
     (if height self = - 1
      then Some (addBlock_call now (Block e (Data ''Genesis Block'')) self)
      else None)"

definition Blockchain_new :: "ext \<Rightarrow> nat \<Rightarrow> blockchain \<times> addBlock_susp option" where
  "Blockchain_new e now =
     (let self = \<lparr>chain = [], height = - 1\<rparr> in (self, initializeChain e now self))"

definition Blockchain_ready :: "ext \<Rightarrow> nat \<Rightarrow> blockchain" where
  "Blockchain_ready e now =
     (case Blockchain_new e now of
        (self, None) \<Rightarrow> self
      | (self, Some k) \<Rightarrow> fst (addBlock_finish e k self))"

text \<open>
  \<^verbatim>\<open>requestMessageOwnershipVerification\<close> (lines 96-101), at a clock reading of
  \<open>now\<close> milliseconds. The method touches no field of the ledger.
\<close>

definition requestMessageOwnershipVerification ::
  "nat \<Rightarrow> string \<Rightarrow> blockchain \<Rightarrow> blockchain \<times> string promise" where
  "requestMessageOwnershipVerification now address self =
     (let unsignedMessage = address @ '':'' @ seconds_string now @ '':starRegistry''
      in (self, resolve Pending unsignedMessage))"

text \<open>
  \<^verbatim>\<open>submitStar\<close> (lines 121-135), run to its end with nothing else in between.
  \<open>now\<close> is the clock reading of line 126 and \<open>now_add\<close> the one that \<^verbatim>\<open>_addBlock\<close>
  takes at line 74. Line 127 calls \<^verbatim>\<open>reject()\<close> and goes on; line 129 calls the
  verifier and drops what it returns; line 133 calls \<^verbatim>\<open>resolve()\<close> with no argument,
  so the promise can only resolve with \<^verbatim>\<open>undefined\<close>, here \<open>None\<close>. The parameter
  \<open>star\<close> is never read.
\<close>

definition submitStar ::
  "ext \<Rightarrow> nat \<Rightarrow> nat \<Rightarrow> string \<Rightarrow> string \<Rightarrow> string \<Rightarrow> string \<Rightarrow> blockchain
     \<Rightarrow> blockchain \<times> block option promise" where
  "submitStar e now now_add address message signature star self =
     (let messageTime = parseInt (index (split CHR '':'' message) 1);
          currentTime = parseInt (Str (seconds_string now));
          p = (if js_greater (js_minus currentTime messageTime) (60 * 5)
               then reject Pending NoReason else Pending);
          dropped = verify e message address signature;
          block = Block e (Data message);
          (self1, added) = addBlock e now_add block self
      in (case added of
            Resolved b \<Rightarrow> (self1, resolve p None)
          | _ \<Rightarrow> (self1, p)))"

text \<open>
  \<^verbatim>\<open>getBlockByHash\<close> (lines 143-159). For each \<open>i\<close> from 0 to the height a callback
  is queued on \<^verbatim>\<open>getBlockByHeight(i)\<close>; the callbacks run in that order. A callback
  that receives \<^verbatim>\<open>null\<close> throws a TypeError at \<^verbatim>\<open>block.hash\<close>, which rejects only the
  promise of its own \<^verbatim>\<open>then\<close>. Nothing but a match calls \<^verbatim>\<open>resolve\<close>, and nothing
  calls \<^verbatim>\<open>reject\<close>.
\<close>

definition getBlockByHash_callback ::
  "blockchain \<Rightarrow> string \<Rightarrow> block promise \<Rightarrow> int \<Rightarrow> block promise" where
  "getBlockByHash_callback self h p i =
     (case getBlockByHeight self i of
        Resolved (Some block) \<Rightarrow> (if loose_eq (hash block) (Str h) then resolve p block else p)
      | _ \<Rightarrow> p)"

definition getBlockByHash :: "blockchain \<Rightarrow> string \<Rightarrow> block promise" where
  "getBlockByHash self h =
     (case getChainHeight self of
        Resolved n \<Rightarrow> foldl (getBlockByHash_callback self h) Pending [0..n]
      | _ \<Rightarrow> Pending)"

text \<open>
  \<^verbatim>\<open>getStarsByWalletAddress\<close> (lines 186-202). Line 190, the first statement of the
  executor, reads the identifier \<^verbatim>\<open>hash\<close>. \<open>scope_line190\<close> lists what is declared
  at that point: the parameters and locals of the method and of the executor, the
  bindings of the module and of the module wrapper of Node (the global object has no
  property of that name). An identifier that is not declared throws a ReferenceError,
  and a throw inside an executor rejects the promise.
  Had the read succeeded, line 200 would resolve with the array \<^verbatim>\<open>stars\<close>, into which
  the callbacks of lines 192-198 push for \<open>i\<close> below the height.
\<close>

definition scope_line190 :: "string list" where
  "scope_line190 =
     [''resolve'', ''reject'', ''self'', ''stars'', ''address'',
      ''SHA256'', ''BlockClass'', ''bitcoinMessage'', ''Blockchain'',
      ''exports'', ''require'', ''module'', ''__filename'', ''__dirname'']"

definition getStars_callbacks :: "ext \<Rightarrow> blockchain \<Rightarrow> string \<Rightarrow> string list" where
  "getStars_callbacks e self address =
     concat (map (\<lambda>i. case getBlockByHeight self i of
                        Resolved (Some block) \<Rightarrow>
                          (if loose_eq (string_address (body block)) (Str address)
                           then [getData e block] else [])
                      | _ \<Rightarrow> [])
                 [0..height self - 1])"

definition getStarsByWalletAddress :: "ext \<Rightarrow> blockchain \<Rightarrow> string \<Rightarrow> string list promise" where
  "getStarsByWalletAddress e self address =
     (if ''hash'' \<in> set scope_line190
      then resolve Pending (getStars_callbacks e self address)
      else reject Pending (Thrown ReferenceError))"

text \<open>
  \<^verbatim>\<open>validateChain\<close> (lines 210-233). The executor is an async function whose first
  statement calls \<^verbatim>\<open>this.getBlockHeight()\<close>. \<open>Blockchain_members\<close> lists the fields
  and methods of the class; calling a member that does not exist throws a TypeError.
  A throw inside an async executor rejects the promise of the executor, not the one
  that \<^verbatim>\<open>validateChain\<close> returns; and no line of the executor calls \<^verbatim>\<open>resolve\<close> or
  \<^verbatim>\<open>reject\<close>, so the returned promise stays pending on either path.
\<close>

definition Blockchain_members :: "string list" where
  "Blockchain_members =
     [''chain'', ''height'', ''constructor'', ''initializeChain'', ''getChainHeight'',
      ''_addBlock'', ''requestMessageOwnershipVerification'', ''submitStar'',
      ''getBlockByHash'', ''getBlockByHeight'', ''getStarsByWalletAddress'',
      ''validateChain'']"

definition call_member :: "string \<Rightarrow> jserror + unit" where
  "call_member name = (if name \<in> set Blockchain_members then Inr () else Inl TypeError)"

definition validateChain :: "blockchain \<Rightarrow> int list promise" where
  "validateChain self =
     (case call_member ''getBlockHeight'' of
        Inl err \<Rightarrow> Pending
      | Inr u \<Rightarrow> Pending)"

section \<open>Ledgers built by the code\<close>

text \<open>
  One call of \<^verbatim>\<open>submitStar\<close> with its arguments and its two clock readings, and the
  ledger after construction at clock reading \<open>t0\<close> followed by a sequence of such
  calls, each run to its end before the next one starts.
\<close>

record submit_call =
  arg_address :: string
  arg_message :: string
  arg_signature :: string
  arg_star :: string
  clock :: nat
  clock_add :: nat

definition submit :: "ext \<Rightarrow> submit_call \<Rightarrow> blockchain \<Rightarrow> blockchain \<times> block option promise" where
  "submit e c self =
     submitStar e (clock c) (clock_add c)
       (arg_address c) (arg_message c) (arg_signature c) (arg_star c) self"

fun run :: "ext \<Rightarrow> blockchain \<Rightarrow> submit_call list \<Rightarrow> blockchain" where
  "run e self [] = self"
| "run e self (c # cs) = run e (fst (submit e c self)) cs"

definition ledger_after :: "ext \<Rightarrow> nat \<Rightarrow> submit_call list \<Rightarrow> blockchain" where
  "ledger_after e t0 cs = run e (Blockchain_ready e t0) cs"

section \<open>Calls that overlap\<close>

text \<open>
  \<^verbatim>\<open>submitStar\<close> up to its \<^verbatim>\<open>await\<close> at line 131: the part that runs inside the call.
  It leaves the promise as line 127 has it and the executor of \<^verbatim>\<open>_addBlock\<close>
  suspended at line 76. What follows the \<^verbatim>\<open>await\<close> only calls \<^verbatim>\<open>resolve()\<close>.
\<close>

definition submitStar_call ::
  "ext \<Rightarrow> nat \<Rightarrow> nat \<Rightarrow> string \<Rightarrow> string \<Rightarrow> string \<Rightarrow> string \<Rightarrow> blockchain
     \<Rightarrow> block option promise \<times> addBlock_susp" where
  "submitStar_call e now now_add address message signature star self =
     (let messageTime = parseInt (index (split CHR '':'' message) 1);
          currentTime = parseInt (Str (seconds_string now));
          p = (if js_greater (js_minus currentTime messageTime) (60 * 5)
               then reject Pending NoReason else Pending);
          dropped = verify e message address signature;
          block = Block e (Data message)
      in (p, addBlock_call now_add block self))"

text \<open>
  A ledger together with the executors of \<^verbatim>\<open>_addBlock\<close> that are suspended, oldest
  first. \<open>Start c\<close> is a call of \<^verbatim>\<open>submitStar\<close>: it adds a suspended executor.
  \<open>Resume i\<close> runs the executor at index \<open>i\<close> up to its next \<^verbatim>\<open>await\<close> or to its
  end. Nothing serializes the executors in blockchain.js, so any sequence of events is
  allowed here; JavaScript resumes continuations in the order in which they were
  queued, which is one of these sequences.
\<close>

datatype event = Start submit_call | Resume nat

fun exec ::
  "ext \<Rightarrow> event \<Rightarrow> blockchain \<times> addBlock_susp list
     \<Rightarrow> blockchain \<times> addBlock_susp list" where
  "exec e (Start c) (self, ks) =
     (self, ks @ [snd (submitStar_call e (clock c) (clock_add c)
                         (arg_address c) (arg_message c) (arg_signature c) (arg_star c)
                         self)])"
| "exec e (Resume i) (self, ks) =
     (if i < length ks
      then (case addBlock_resume e (ks ! i) self of
              (self1, Inl k) \<Rightarrow> (self1, ks[i := k])
            | (self1, Inr r) \<Rightarrow> (self1, take i ks @ drop (Suc i) ks))
      else (self, ks))"

fun execs ::
  "ext \<Rightarrow> event list \<Rightarrow> blockchain \<times> addBlock_susp list
     \<Rightarrow> blockchain \<times> addBlock_susp list" where
  "execs e [] w = w"
| "execs e (ev # evs) w = execs e evs (exec e ev w)"

text \<open>The ledger and the suspended initialization when \<^verbatim>\<open>new Blockchain()\<close> returns.\<close>

definition constructed :: "ext \<Rightarrow> nat \<Rightarrow> blockchain \<times> addBlock_susp list" where
  "constructed e t0 =
     (case Blockchain_new e t0 of
        (self, None) \<Rightarrow> (self, [])
      | (self, Some k) \<Rightarrow> (self, [k]))"

text \<open>
  The block that one complete run of \<^verbatim>\<open>_addBlock\<close> pushes when the ledger had height
  \<open>h\<close> at the call, and the test of line 127 as a predicate of the clock reading and the
  message. Both only name what the definitions above compute (\<open>addBlock_eq\<close>,
  \<open>submitStar_eq\<close>).
\<close>

definition sealed :: "ext \<Rightarrow> nat \<Rightarrow> block \<Rightarrow> int \<Rightarrow> block" where
  "sealed e now block h =
     block\<lparr>time := seconds_string now, height_b := h + 1, previousBlockHash := Undefined,
       hash := Str (SHA256 e
         (toString_int (h + 1) @ body block @ seconds_string now @ ''undefined''))\<rparr>"

definition genesis :: "ext \<Rightarrow> nat \<Rightarrow> block" where
  "genesis e t0 = sealed e t0 (Block e (Data ''Genesis Block'')) (- 1)"

definition expired :: "nat \<Rightarrow> string \<Rightarrow> bool" where
  "expired now msg =
     js_greater (js_minus (parseInt (Str (seconds_string now)))
       (parseInt (index (split CHR '':'' msg) 1))) (60 * 5)"

text \<open>
  The bookkeeping of heights: the cached height is the last position of the array, and
  the block at position \<open>i\<close> has \<open>i\<close> in its height field.
\<close>

definition positions :: "blockchain \<Rightarrow> bool" where
  "positions self =
     (height self = int (length (chain self)) - 1 \<and>
      map height_b (chain self) = map int [0..<length (chain self)])"



section \<open>What a complete call does\<close>

lemma addBlock_eq:
  "addBlock e now block self =
     (self\<lparr>height := height self + 1,
            chain := chain self @ [sealed e now block (height self)]\<rparr>,
      Resolved (sealed e now block (height self)))"
  by (simp add: addBlock_def addBlock_call_def getChainHeight_def resolve_def
      promise_hash_def block_digest_def sealed_def Let_def)

lemma submitStar_eq:
  "submitStar e now now_add a m s st self =
     (fst (addBlock e now_add (Block e (Data m)) self),
      if expired now m then Rejected NoReason else Resolved None)"
  by (simp add: submitStar_def addBlock_eq expired_def resolve_def reject_def Let_def)

lemma Blockchain_ready_eq:
  "Blockchain_ready e t0 = \<lparr>chain = [genesis e t0], height = 0\<rparr>"
  by (simp add: Blockchain_ready_def Blockchain_new_def initializeChain_def addBlock_call_def
      getChainHeight_def resolve_def promise_hash_def block_digest_def genesis_def
      sealed_def Let_def)

lemmas evaluate_expired =
  expired_def seconds_string_def slice0_def toString_nat.simps digit_char_def index_def
  parseInt_def read_unsigned_def read_digits_def digit_value_def is_white_space_def
  js_minus_def js_greater_def

section \<open>Heights and positions\<close>

lemma positions_ready: "positions (Blockchain_ready e t0)"
  by (simp add: positions_def Blockchain_ready_eq genesis_def sealed_def)

lemma positions_submit: "positions self \<Longrightarrow> positions (fst (submit e c self))"
  by (simp add: positions_def submit_def submitStar_eq addBlock_eq sealed_def)

lemma positions_run: "positions self \<Longrightarrow> positions (run e self cs)"
  by (induction cs arbitrary: self) (simp_all add: positions_submit)

lemma positions_ledger: "positions (ledger_after e t0 cs)"
  by (simp add: ledger_after_def positions_run positions_ready)



section \<open>The blocks of a ledger\<close>

lemma run_chain:
  "\<exists>bs. chain (run e self cs) = chain self @ bs \<and> length bs = length cs
     \<and> (\<forall>b \<in> set bs. previousBlockHash b = Undefined)"
proof (induction cs arbitrary: self)
  case Nil
  then show ?case by simp
next
  case (Cons c cs)
  let ?b = "sealed e (clock_add c) (Block e (Data (arg_message c))) (height self)"
  let ?s = "fst (submit e c self)"
  have s: "chain ?s = chain self @ [?b]"
    by (simp add: submit_def submitStar_eq addBlock_eq)
  from Cons.IH [of ?s] obtain bs where
    bs: "chain (run e ?s cs) = chain ?s @ bs" "length bs = length cs"
      "\<forall>b \<in> set bs. previousBlockHash b = Undefined"
    by blast
  have "chain (run e self (c # cs)) = chain self @ (?b # bs)" using bs(1) s by simp
  moreover have "length (?b # bs) = length (c # cs)" using bs(2) by simp
  moreover have "\<forall>b \<in> set (?b # bs). previousBlockHash b = Undefined"
    using bs(3) by (simp add: sealed_def)
  ultimately show ?case by blast
qed

lemma ledger_chain:
  "\<exists>bs. chain (ledger_after e t0 cs) = genesis e t0 # bs \<and> length bs = length cs
     \<and> (\<forall>b \<in> set bs. previousBlockHash b = Undefined)"
  using run_chain [of e "Blockchain_ready e t0" cs]
  by (simp add: ledger_after_def Blockchain_ready_eq)

lemma sealed_digest: "hash (sealed e now block h) = block_digest e (sealed e now block h)"
  by (simp add: sealed_def block_digest_def)

lemma run_digest:
  "map hash (chain self) = map (block_digest e) (chain self) \<Longrightarrow>
   map hash (chain (run e self cs)) = map (block_digest e) (chain (run e self cs))"
proof (induction cs arbitrary: self)
  case Nil
  then show ?case by simp
next
  case (Cons c cs)
  have "map hash (chain (fst (submit e c self)))
      = map (block_digest e) (chain (fst (submit e c self)))"
    using Cons.prems by (simp add: submit_def submitStar_eq addBlock_eq sealed_digest)
  then show ?case using Cons.IH by simp
qed

section \<open>Clock strings\<close>

lemma toString_nat_snoc:
  "10 \<le> n \<Longrightarrow> toString_nat n = toString_nat (n div 10) @ [digit_char (n mod 10)]"
  by (subst toString_nat.simps) simp

lemma seconds_string_div:
  assumes "1000 \<le> ms"
  shows "seconds_string ms = toString_nat (ms div 1000)"
proof -
  have a: "10 \<le> ms" and b: "10 \<le> ms div 10" and c: "10 \<le> ms div 10 div 10"
    using assms by simp_all
  have d: "ms div 10 div 10 div 10 = ms div 1000"
    by (simp add: div_mult2_eq [symmetric])
  have "toString_nat ms =
      toString_nat (ms div 1000) @
        [digit_char (ms div 10 div 10 mod 10), digit_char (ms div 10 mod 10),
         digit_char (ms mod 10)]"
    using toString_nat_snoc [OF a] toString_nat_snoc [OF b] toString_nat_snoc [OF c] d
    by simp
  then show ?thesis
    by (simp add: seconds_string_def slice0_def)
qed

section \<open>Lookup by hash\<close>

lemma getBlockByHash_callback_miss:
  assumes miss: "\<forall>b \<in> set (chain self). hash b \<noteq> Str h"
  shows "getBlockByHash_callback self h Pending i = Pending"
proof (cases "filter (\<lambda>p. height_b p = i) (chain self)")
  case Nil
  then show ?thesis
    by (simp add: getBlockByHash_callback_def getBlockByHeight_def resolve_def)
next
  case (Cons b bs)
  then have "b \<in> set (filter (\<lambda>p. height_b p = i) (chain self))" by simp
  then have "b \<in> set (chain self)" by simp
  with miss have "hash b \<noteq> Str h" by blast
  then have "\<not> loose_eq (hash b) (Str h)" by (cases "hash b") simp_all
  with Cons show ?thesis
    by (simp add: getBlockByHash_callback_def getBlockByHeight_def resolve_def)
qed

lemma foldl_callback_miss:
  "\<forall>b \<in> set (chain self). hash b \<noteq> Str h \<Longrightarrow>
   foldl (getBlockByHash_callback self h) Pending js = Pending"
  by (induction js) (simp_all add: getBlockByHash_callback_miss)

section \<open>Overlapping calls and serial calls\<close>

lemma submitStar_call_snd:
  "snd (submitStar_call e now now_add a m s st self)
     = Await76 ((Block e (Data m))\<lparr>time := seconds_string now_add\<rparr>) (Resolved (height self))"
  by (simp add: submitStar_call_def addBlock_call_def getChainHeight_def resolve_def Let_def)

lemma submitStar_by_call:
  "submitStar e now now_add a m s st self =
     (case submitStar_call e now now_add a m s st self of
        (p, k) \<Rightarrow>
          (case addBlock_finish e k self of
             (self1, Resolved b) \<Rightarrow> (self1, resolve p None)
           | (self1, r) \<Rightarrow> (self1, p)))"
  by (simp add: submitStar_def submitStar_call_def addBlock_def Let_def
      split: prod.splits promise.splits)

lemma Blockchain_ready_serial:
  "execs e [Resume 0, Resume 0] (constructed e t0) = (Blockchain_ready e t0, [])"
  by (simp add: constructed_def Blockchain_new_def initializeChain_def addBlock_call_def
      getChainHeight_def resolve_def promise_hash_def Blockchain_ready_eq genesis_def
      sealed_def block_digest_def Let_def)

lemma submit_serial:
  "execs e [Start c, Resume 0, Resume 0] (self, []) = (fst (submit e c self), [])"
  by (simp add: submitStar_call_snd promise_hash_def submit_def submitStar_eq addBlock_eq
      sealed_def block_digest_def Let_def)

lemma execs_append: "execs e (evs @ evs2) w = execs e evs2 (execs e evs w)"
  by (induction evs arbitrary: w) simp_all

lemma run_serial:
  "execs e (concat (map (\<lambda>c. [Start c, Resume 0, Resume 0]) cs)) (self, [])
     = (run e self cs, [])"
proof (induction cs arbitrary: self)
  case Nil
  then show ?case by simp
next
  case (Cons c cs)
  have "execs e (concat (map (\<lambda>c. [Start c, Resume 0, Resume 0]) (c # cs))) (self, [])
      = execs e (concat (map (\<lambda>c. [Start c, Resume 0, Resume 0]) cs))
          (execs e [Start c, Resume 0, Resume 0] (self, []))"
    using execs_append [of e "[Start c, Resume 0, Resume 0]"] by simp
  then show ?case using Cons.IH by (simp only: submit_serial run.simps)
qed

lemma ledger_after_serial:
  "execs e ([Resume 0, Resume 0] @ concat (map (\<lambda>c. [Start c, Resume 0, Resume 0]) cs))
     (constructed e t0) = (ledger_after e t0 cs, [])"
  by (simp only: execs_append Blockchain_ready_serial run_serial ledger_after_def)








section \<open>Submission\<close>

text \<open>
  Claim C1 asks that a submission whose signature the verifier refuses fails with
  InvalidSignature and leaves the chain and the height as they were. The code calls the
  verifier at line 129 and drops the answer: with a verifier that refuses everything,
  every complete call of \<^verbatim>\<open>submitStar\<close> still raises the height by one and pushes
  one block, and a call with an unexpired message (60 seconds old here) resolves.
\<close>

theorem submitStar_ignores_verifier:
  "height (fst (submitStar (e\<lparr>verify := (\<lambda>m a s. False)\<rparr>) now now_add a m s st self))
     = height self + 1
   \<and> length (chain (fst (submitStar (e\<lparr>verify := (\<lambda>m a s. False)\<rparr>)
        now now_add a m s st self)))
     = length (chain self) + 1
   \<and> snd (submitStar (e\<lparr>verify := (\<lambda>m a s. False)\<rparr>) 1700000060000 now_add a
        ''A:1700000000:starRegistry'' s st self) = Resolved None"
  by (simp add: submitStar_eq addBlock_eq evaluate_expired)

text \<open>
  Claim C2 asks that a submission whose challenge is more than 300 seconds old fails
  with ExpiredChallenge before the verifier runs and before any append, the height
  unchanged. The code calls \<^verbatim>\<open>reject()\<close> at line 127 and does not return: for a message
  issued at second 1700000000 and submitted at second 1700000301 the promise is rejected,
  with no reason, and the block is appended all the same.
\<close>

theorem submitStar_expired_still_appends:
  "snd (submitStar e 1700000301000 now_add a ''A:1700000000:starRegistry'' s st self)
     = Rejected NoReason
   \<and> height (fst (submitStar e 1700000301000 now_add a ''A:1700000000:starRegistry''
        s st self))
     = height self + 1
   \<and> length (chain (fst (submitStar e 1700000301000 now_add a
        ''A:1700000000:starRegistry'' s st self)))
     = length (chain self) + 1"
  by (simp add: submitStar_eq addBlock_eq evaluate_expired)

section \<open>Linkage\<close>

text \<open>
  Claim C3 asks that every block above the genesis block stores the hash of its
  predecessor as its previous hash. Line 80 awaits \<^verbatim>\<open>.hash\<close> of the promise that
  \<^verbatim>\<open>getBlockByHeight\<close> returns, not of the block the promise resolves with: on every
  ledger with at least one submission the block at position 1 stores \<^verbatim>\<open>undefined\<close>,
  which is not the hash stored at position 0.
\<close>

theorem previousBlockHash_undefined:
  "previousBlockHash (chain (ledger_after e t0 (c # cs)) ! 1) = Undefined
   \<and> previousBlockHash (chain (ledger_after e t0 (c # cs)) ! 1)
       \<noteq> hash (chain (ledger_after e t0 (c # cs)) ! 0)"
proof -
  obtain bs where bs: "chain (ledger_after e t0 (c # cs)) = genesis e t0 # bs"
    "length bs = length (c # cs)" "\<forall>b \<in> set bs. previousBlockHash b = Undefined"
    using ledger_chain by blast
  from bs(2) have "bs ! 0 \<in> set bs" by (cases bs) simp_all
  with bs(3) have "previousBlockHash (bs ! 0) = Undefined" by blast
  then show ?thesis using bs(1) by (simp add: genesis_def sealed_def)
qed

section \<open>Validation\<close>

text \<open>
  Claim C4 asks that \<^verbatim>\<open>validateChain\<close> scans every block once and returns the list of
  issues, empty on a chain built by valid submissions. The promise that the code returns
  never settles, on any ledger: it does not resolve with the empty list either.
\<close>

theorem validateChain_never_settles:
  "validateChain self = Pending \<and> validateChain (ledger_after e t0 cs) \<noteq> Resolved []"
  by (simp add: validateChain_def call_member_def Blockchain_members_def)

section \<open>What a submission returns\<close>

text \<open>
  Claim C5 asks that a correctly signed, unexpired submission succeeds, raises the height
  by one and resolves with the appended block. Line 133 calls \<^verbatim>\<open>resolve()\<close> without an
  argument: no call of \<^verbatim>\<open>submitStar\<close> resolves with a block, and a submission 299
  seconds after the challenge raises the height by one and resolves with \<^verbatim>\<open>undefined\<close>.
\<close>

theorem submitStar_resolves_without_block:
  "snd (submitStar e now now_add a m s st self) \<noteq> Resolved (Some b)
   \<and> snd (submitStar e 1700000299000 now_add a ''A:1700000000:starRegistry'' s st self)
       = Resolved None
   \<and> height (fst (submitStar e 1700000299000 now_add a ''A:1700000000:starRegistry''
        s st self))
       = height self + 1"
  by (simp add: submitStar_eq addBlock_eq evaluate_expired)

section \<open>Stars of an address\<close>

text \<open>
  Claim C6 asks that \<^verbatim>\<open>getStarsByWalletAddress\<close> scans all blocks up to the current
  height and returns the stars of the address in order. The first statement of its
  executor reads an identifier that is not declared, so the promise is rejected with a
  ReferenceError for every ledger and every address.
\<close>

theorem getStarsByWalletAddress_rejects:
  "getStarsByWalletAddress e self a = Rejected (Thrown ReferenceError)"
  by (simp add: getStarsByWalletAddress_def scope_line190_def reject_def)

section \<open>The genesis block\<close>



section \<open>Lookup by height\<close>



section \<open>The challenge message\<close>

text \<open>
  Claim C9: the message is the address, a colon, the seconds of the clock reading, a
  colon and the tag \<^verbatim>\<open>starRegistry\<close>; the ledger is returned as it was, and the result
  depends on the address and the clock reading only. The seconds are the decimal digits
  of the milliseconds without the last three, which is the decimal rendering of
  \<open>now div 1000\<close> for every clock reading from 1000 milliseconds on.
\<close>

theorem issue_challenge_message:
  "requestMessageOwnershipVerification now a self =
     (self, Resolved (a @ '':'' @ seconds_string now @ '':starRegistry''))
   \<and> (1000 \<le> now \<longrightarrow> seconds_string now = toString_nat (now div 1000))"
  by (simp add: requestMessageOwnershipVerification_def resolve_def seconds_string_div)

theorem issue_challenge_message_witness:
  "(1000::nat) \<le> 1700000000000
   \<and> seconds_string 1700000000000 = ''1700000000''
   \<and> requestMessageOwnershipVerification 1700000000000 ''1A'' \<lparr>chain = [], height = - 1\<rparr> =
       (\<lparr>chain = [], height = - 1\<rparr>, Resolved ''1A:1700000000:starRegistry'')"
  using issue_challenge_message [of 1700000000000 "''1A''" "\<lparr>chain = [], height = - 1\<rparr>"]
  by (simp add: toString_nat.simps digit_char_def)

section \<open>Lookup of a hash that no block has\<close>

text \<open>
  Claim C10: when no block of the chain has the hash that is asked for, the promise of
  \<^verbatim>\<open>getBlockByHash\<close> is neither resolved nor rejected: it stays pending.
\<close>

theorem getBlockByHash_missing_stays_pending:
  "\<forall>b \<in> set (chain self). hash b \<noteq> Str h \<Longrightarrow> getBlockByHash self h = Pending"
  by (simp add: getBlockByHash_def getChainHeight_def resolve_def foldl_callback_miss)

theorem getBlockByHash_missing_stays_pending_witness:
  "map hash (chain (ledger_after
        \<lparr>SHA256 = (\<lambda>x. CHR ''#'' # x), verify = (\<lambda>m a s. True),
          Block = (\<lambda>p. \<lparr>hash = Null, height_b = 0, body = ''x'', time = ''0'',
                            previousBlockHash = Null\<rparr>),
          getData = body\<rparr> 5000
          [\<lparr>arg_address = ''A'', arg_message = ''A:5:starRegistry'', arg_signature = ''sig'',
            arg_star = ''star'', clock = 6000, clock_add = 6000\<rparr>]))
     = [Str ''#0x5undefined'', Str ''#1x6undefined'']
   \<and> getBlockByHash (ledger_after
        \<lparr>SHA256 = (\<lambda>x. CHR ''#'' # x), verify = (\<lambda>m a s. True),
          Block = (\<lambda>p. \<lparr>hash = Null, height_b = 0, body = ''x'', time = ''0'',
                            previousBlockHash = Null\<rparr>),
          getData = body\<rparr> 5000
          [\<lparr>arg_address = ''A'', arg_message = ''A:5:starRegistry'', arg_signature = ''sig'',
            arg_star = ''star'', clock = 6000, clock_add = 6000\<rparr>])
        ''00ff'' = Pending"
proof -
  let ?L = "ledger_after
        \<lparr>SHA256 = (\<lambda>x. CHR ''#'' # x), verify = (\<lambda>m a s. True),
          Block = (\<lambda>p. \<lparr>hash = Null, height_b = 0, body = ''x'', time = ''0'',
                            previousBlockHash = Null\<rparr>),
          getData = body\<rparr> 5000
          [\<lparr>arg_address = ''A'', arg_message = ''A:5:starRegistry'', arg_signature = ''sig'',
            arg_star = ''star'', clock = 6000, clock_add = 6000\<rparr>]"
  have c: "chain ?L =
      [genesis \<lparr>SHA256 = (\<lambda>x. CHR ''#'' # x), verify = (\<lambda>m a s. True),
          Block = (\<lambda>p. \<lparr>hash = Null, height_b = 0, body = ''x'', time = ''0'',
                            previousBlockHash = Null\<rparr>),
          getData = body\<rparr> 5000,
       sealed \<lparr>SHA256 = (\<lambda>x. CHR ''#'' # x), verify = (\<lambda>m a s. True),
          Block = (\<lambda>p. \<lparr>hash = Null, height_b = 0, body = ''x'', time = ''0'',
                            previousBlockHash = Null\<rparr>),
          getData = body\<rparr> 6000
         \<lparr>hash = Null, height_b = 0, body = ''x'', time = ''0'', previousBlockHash = Null\<rparr> 0]"
    by (simp add: ledger_after_def Blockchain_ready_eq submit_def submitStar_eq addBlock_eq)
  have hs: "map hash (chain ?L) = [Str ''#0x5undefined'', Str ''#1x6undefined'']"
    unfolding c
    by (simp add: genesis_def sealed_def seconds_string_def slice0_def toString_int_def
        toString_nat.simps digit_char_def)
  have miss: "\<forall>b \<in> set (chain ?L). hash b \<noteq> Str ''00ff''"
    unfolding c by (simp add: genesis_def sealed_def)
  from getBlockByHash_missing_stays_pending [OF miss] hs show ?thesis by simp
qed

section \<open>Further properties of the ledger\<close>

text \<open>
  Heights are contiguous: after construction and any sequence of complete submissions
  the cached height is the last position of the chain, the block at position \<open>i\<close> has
  height \<open>i\<close>, and the chain has one block more than there were submissions.
\<close>

theorem ledger_heights_contiguous:
  "height (ledger_after e t0 cs) = int (length (chain (ledger_after e t0 cs))) - 1
   \<and> map height_b (chain (ledger_after e t0 cs))
       = map int [0..<length (chain (ledger_after e t0 cs))]
   \<and> length (chain (ledger_after e t0 cs)) = length cs + 1"
proof -
  have "positions (ledger_after e t0 cs)" by (rule positions_ledger)
  moreover obtain bs where "chain (ledger_after e t0 cs) = genesis e t0 # bs"
    "length bs = length cs"
    using ledger_chain by blast
  ultimately show ?thesis by (simp add: positions_def)
qed

text \<open>
  The stored hash of every block is what line 82 computes from the other four stored
  fields of that block: recomputing it reproduces the stored value.
\<close>

theorem stored_hash_recomputable:
  "map hash (chain (ledger_after e t0 cs))
     = map (block_digest e) (chain (ledger_after e t0 cs))"
  unfolding ledger_after_def
  by (rule run_digest) (simp add: Blockchain_ready_eq genesis_def sealed_digest)

text \<open>
  A complete call of \<^verbatim>\<open>submitStar\<close> always appends one block built from the message
  and the clock reading of \<^verbatim>\<open>_addBlock\<close>: the ledger it leaves does not depend on the
  address, the signature, the star or the clock reading of line 126.
\<close>

theorem submitStar_ledger_depends_on_message_only:
  "fst (submitStar e now now_add a m s st self)
     = self\<lparr>height := height self + 1,
            chain := chain self @ [sealed e now_add (Block e (Data m)) (height self)]\<rparr>
   \<and> fst (submitStar e now now_add a m s st self)
       = fst (submitStar e now2 now_add a2 m s2 st2 self)"
  by (simp add: submitStar_eq addBlock_eq)

end
